theory Spec2Isabelle
  imports Main "HOL-Library.Word" "HOL-Library.Sublist"
begin

unbundle bit_operations_syntax

section \<open>Errors and outcomes of Go calls\<close>

text \<open>
  The error values that \<^verbatim>\<open>pkg/whip/server.go\<close> names or compares against.
  \<open>ErrNoResponse\<close> is \<^verbatim>\<open>psrpc.ErrNoResponse\<close>; \<open>ErrIngressNotFound\<close> and
  \<open>ErrInvalidWHIPRestartRequest\<close> are the sentinels of \<^verbatim>\<open>pkg/errors\<close>;
  \<open>DeadlineExceeded\<close> is what a call bounded by \<^verbatim>\<open>context.WithTimeout\<close> reports when
  its deadline passes; \<open>PsrpcError\<close> is any other error of the RPC layer and
  \<open>OtherError\<close> any other error. A Go \<^verbatim>\<open>error\<close> that may be \<^verbatim>\<open>nil\<close> is an
  \<open>error option\<close>, \<open>None\<close> being \<^verbatim>\<open>nil\<close>.
\<close>

datatype error =
    ErrNoResponse
  | ErrIngressNotFound
  | ErrInvalidWHIPRestartRequest
  | DeadlineExceeded
  | PsrpcError nat string
  | OtherError string

text \<open>A call either returns or panics (calling a \<^verbatim>\<open>nil\<close> function value panics).\<close>

datatype 'a outcome = Returns 'a | Panics

section \<open>The handler registry\<close>

text \<open>
  \<^verbatim>\<open>handlers map[string]*whipHandler\<close>: a handler pointer is \<open>Some h\<close> or \<open>None\<close>
  for \<^verbatim>\<open>nil\<close>; the map is a partial function from resource ids to pointers.
\<close>

type_synonym handler_ptr = "nat option"
type_synonym registry = "string \<rightharpoonup> handler_ptr"

definition IsIdle :: "registry \<Rightarrow> bool" where
  "IsIdle handlers = (dom handlers = {})"

section \<open>Session creation: \<^verbatim>\<open>createStream\<close>\<close>

text \<open>
  \<^verbatim>\<open>map[types.StreamKind]string\<close>, \<^verbatim>\<open>nil\<close> being \<open>None\<close>; the stats gatherer
  that \<^verbatim>\<open>ready\<close> returns is a pointer that may be \<^verbatim>\<open>nil\<close>; \<^verbatim>\<open>ended\<close> returns
  nothing, so a non-nil \<^verbatim>\<open>ended\<close> is \<open>Some ()\<close>.
\<close>

type_synonym mimeTypes = "(string \<times> string) list option"
type_synonym params = nat
type_synonym readyFn = "mimeTypes \<Rightarrow> error option \<Rightarrow> nat option"
type_synonym endedFn = unit

text \<open>
  What the collaborators of one \<^verbatim>\<open>createStream\<close> call answer: the fresh guid, the new
  handler, \<^verbatim>\<open>s.onPublish\<close>, and the handler's \<^verbatim>\<open>Init\<close>, \<^verbatim>\<open>Start\<close> and
  \<^verbatim>\<open>WaitForSessionEnd\<close>. \<^verbatim>\<open>Init\<close> and \<^verbatim>\<open>Start\<close> run under a context with a
  deadline and return an error when it passes. \<^verbatim>\<open>WaitForSessionEnd\<close> runs under the
  server's context only: \<open>None\<close> says that it never returns.
\<close>

record collab =
  NewGuid :: string
  NewWHIPHandler :: nat
  onPublish :: "string \<Rightarrow> string \<Rightarrow> nat \<Rightarrow> params \<times> readyFn option \<times> endedFn option \<times> error option"
  h_Init :: "params \<Rightarrow> string \<Rightarrow> string \<times> error option"
  h_Start :: "mimeTypes \<times> error option"
  h_WaitForSessionEnd :: "error option option"

text \<open>What a session does that others can observe, in the order it does it.\<close>

datatype event =
    OnPublishCalled string string
  | InitCalled string
  | ReadyCalled mimeTypes "error option"
  | StatsGathererSet nat
  | HandlerStored string nat
  | HandlerDeleted string
  | StartCalled
  | InfoLogged
  | WarnLogged
  | WaitForSessionEndCalled
  | EndedCalled "error option"

text \<open>
  The inner goroutine (lines 389--406): it blocks in \<^verbatim>\<open>WaitForSessionEnd\<close>; when that
  returns, the deferred function deletes the handler, logs a failure and calls
  \<^verbatim>\<open>ended\<close> when it is not \<^verbatim>\<open>nil\<close>.
\<close>

definition sessionEndGoroutine :: "collab \<Rightarrow> string \<Rightarrow> endedFn option \<Rightarrow> event list" where
  "sessionEndGoroutine c resourceId ended =
     WaitForSessionEndCalled #
     (case h_WaitForSessionEnd c of
        None \<Rightarrow> []
      | Some err \<Rightarrow>
          [HandlerDeleted resourceId]
          @ (if err \<noteq> None then [WarnLogged] else [])
          @ (if ended \<noteq> None then [EndedCalled err] else []))"

text \<open>
  The deferred function of the outer goroutine (lines 364--375), registered only when
  \<^verbatim>\<open>ready\<close> is not \<^verbatim>\<open>nil\<close>: it calls \<^verbatim>\<open>ready\<close>, attaches the stats gatherer,
  and deletes the handler when \<^verbatim>\<open>err\<close> is set.
\<close>

definition readyDeferred :: "readyFn \<Rightarrow> string \<Rightarrow> mimeTypes \<Rightarrow> error option \<Rightarrow> event list" where
  "readyDeferred ready resourceId mimeTypes err =
     [ReadyCalled mimeTypes err]
     @ (case ready mimeTypes err of None \<Rightarrow> [] | Some stats \<Rightarrow> [StatsGathererSet stats])
     @ (if err \<noteq> None then [HandlerDeleted resourceId] else [])"

text \<open>
  The outer goroutine (lines 357--407): its body in program order, the goroutine it
  launches (if any), and what its deferred function does once the body has returned,
  that is, after the inner goroutine has been launched.
\<close>

record start_task =
  body_events :: "event list"
  spawned_events :: "event list option"
  deferred_events :: "event list"

definition sessionStartGoroutine ::
  "collab \<Rightarrow> nat \<Rightarrow> string \<Rightarrow> readyFn option \<Rightarrow> endedFn option \<Rightarrow> start_task" where
  "sessionStartGoroutine c h resourceId ready ended =
     (let (mimeTypes, err) = h_Start c;
          deferred = (case ready of
                        None \<Rightarrow> []
                      | Some f \<Rightarrow> readyDeferred f resourceId mimeTypes err)
      in if err \<noteq> None
         then \<lparr>body_events = [HandlerStored resourceId h, StartCalled],
               spawned_events = None,
               deferred_events = deferred\<rparr>
         else \<lparr>body_events = [HandlerStored resourceId h, StartCalled, InfoLogged],
               spawned_events = Some (sessionEndGoroutine c resourceId ended),
               deferred_events = deferred\<rparr>)"

text \<open>
  \<^verbatim>\<open>createStream\<close> (lines 338--410): what it returns, what it did before returning, and
  the goroutine it launched.
\<close>

record stream_run =
  returned :: "(string \<times> string \<times> error option) outcome"
  sync_events :: "event list"
  background :: "start_task option"

definition createStream :: "collab \<Rightarrow> string \<Rightarrow> string \<Rightarrow> stream_run" where
  "createStream c streamKey sdpOffer =
     (let resourceId = NewGuid c;
          h = NewWHIPHandler c;
          (p, ready, ended, err) = onPublish c streamKey resourceId h
      in if err \<noteq> None
         then \<lparr>returned = Returns ('''', '''', err),
               sync_events = [OnPublishCalled streamKey resourceId],
               background = None\<rparr>
         else
           (let (sdpResponse, err) = h_Init c p sdpOffer
            in if err \<noteq> None
               then (case ready of
                       None \<Rightarrow>
                         \<lparr>returned = Panics,
                          sync_events = [OnPublishCalled streamKey resourceId, InitCalled sdpOffer],
                          background = None\<rparr>
                     | Some f \<Rightarrow>
                         \<lparr>returned = Returns ('''', '''', err),
                          sync_events = [OnPublishCalled streamKey resourceId, InitCalled sdpOffer,
                                         ReadyCalled None err],
                          background = None\<rparr>)
               else \<lparr>returned = Returns (resourceId, sdpResponse, None),
                     sync_events = [OnPublishCalled streamKey resourceId, InitCalled sdpOffer],
                     background = Some (sessionStartGoroutine c h resourceId ready ended)\<rparr>))"

text \<open>
  The complete runs of a session. The deferred function of the outer goroutine runs
  concurrently with the inner goroutine, so every interleaving of the two is a run.
\<close>

definition task_traces :: "start_task \<Rightarrow> event list set" where
  "task_traces t =
     (\<lambda>rest. body_events t @ rest) `
       (case spawned_events t of
          None \<Rightarrow> {deferred_events t}
        | Some w \<Rightarrow> shuffles (deferred_events t) w)"

definition session_traces :: "stream_run \<Rightarrow> event list set" where
  "session_traces r =
     (\<lambda>rest. sync_events r @ rest) `
       (case background r of None \<Rightarrow> {[]} | Some t \<Rightarrow> task_traces t)"

text \<open>The effect of a run on \<^verbatim>\<open>s.handlers\<close>.\<close>

fun apply_event :: "registry \<Rightarrow> event \<Rightarrow> registry" where
  "apply_event m (HandlerStored k h) = m(k \<mapsto> Some h)"
| "apply_event m (HandlerDeleted k) = m(k := None)"
| "apply_event m _ = m"

definition run_events :: "registry \<Rightarrow> event list \<Rightarrow> registry" where
  "run_events m es = foldl apply_event m es"

text \<open>Recognisers of events, and the number of events of a kind in a run.\<close>

fun is_ready :: "event \<Rightarrow> bool" where
  "is_ready (ReadyCalled _ _) = True"
| "is_ready _ = False"

fun is_ended :: "event \<Rightarrow> bool" where
  "is_ended (EndedCalled _) = True"
| "is_ended _ = False"

definition calls :: "(event \<Rightarrow> bool) \<Rightarrow> event list \<Rightarrow> nat" where
  "calls P es = length (filter P es)"

text \<open>
  \<open>precedes P Q es\<close>: a \<open>P\<close> event and a \<open>Q\<close> event both occur in \<open>es\<close>, and every
  \<open>P\<close> event lies strictly before every \<open>Q\<close> event.
\<close>

definition precedes :: "(event \<Rightarrow> bool) \<Rightarrow> (event \<Rightarrow> bool) \<Rightarrow> event list \<Rightarrow> bool" where
  "precedes P Q es =
     (list_ex P (takeWhile (\<lambda>e. \<not> Q e) es) \<and>
      dropWhile (\<lambda>e. \<not> Q e) es \<noteq> [] \<and>
      \<not> list_ex P (dropWhile (\<lambda>e. \<not> Q e) es))"

fun is_stored :: "event \<Rightarrow> bool" where
  "is_stored (HandlerStored _ _) = True"
| "is_stored _ = False"

fun is_deleted :: "event \<Rightarrow> bool" where
  "is_deleted (HandlerDeleted _) = True"
| "is_deleted _ = False"

fun is_start :: "event \<Rightarrow> bool" where
  "is_start StartCalled = True"
| "is_start _ = False"

section \<open>Administrative operations on the registry\<close>

text \<open>
  What an administrative operation asks of the handler it found. The handler's own
  \<^verbatim>\<open>AssociateRelay\<close> is a parameter: handler, kind, token and writer to its error.
\<close>

datatype handler_call =
    AssociateRelayCalled nat string string nat
  | DissociateRelayCalled nat string

definition AssociateRelay ::
  "registry \<Rightarrow> (nat \<Rightarrow> string \<Rightarrow> string \<Rightarrow> nat \<Rightarrow> error option) \<Rightarrow>
   string \<Rightarrow> string \<Rightarrow> string \<Rightarrow> nat \<Rightarrow> error option \<times> handler_call list" where
  "AssociateRelay handlers h_AssociateRelay resourceId kind token wr =
     (case handlers resourceId of
        Some (Some h) \<Rightarrow>
          (h_AssociateRelay h kind token wr, [AssociateRelayCalled h kind token wr])
      | _ \<Rightarrow> (Some ErrIngressNotFound, []))"

text \<open>
  \<^verbatim>\<open>DissociateRelay\<close> has no result: the first component, the error its caller
  learns of, is always \<open>None\<close>.
\<close>

definition DissociateRelay ::
  "registry \<Rightarrow> string \<Rightarrow> string \<Rightarrow> error option \<times> handler_call list" where
  "DissociateRelay handlers resourceId kind =
     (case handlers resourceId of
        Some (Some h) \<Rightarrow> (None, [DissociateRelayCalled h kind])
      | _ \<Rightarrow> (None, []))"

section \<open>Requests and responses\<close>

text \<open>
  An \<^verbatim>\<open>http.ResponseWriter\<close>: the header map, the status once \<^verbatim>\<open>WriteHeader\<close> has
  been called, and the body written so far. Every \<^verbatim>\<open>Header().Set\<close> of the source
  comes before the \<^verbatim>\<open>WriteHeader\<close> of its handler.
\<close>

record response =
  resp_header :: "string \<rightharpoonup> string"
  resp_status :: "nat option"
  resp_body :: string

definition Header_Set :: "string \<Rightarrow> string \<Rightarrow> response \<Rightarrow> response" where
  "Header_Set k v w = w\<lparr>resp_header := (resp_header w)(k \<mapsto> v)\<rparr>"

definition WriteHeader :: "nat \<Rightarrow> response \<Rightarrow> response" where
  "WriteHeader code w = (if resp_status w = None then w\<lparr>resp_status := Some code\<rparr> else w)"

definition bodyAllowedForStatus :: "nat \<Rightarrow> bool" where
  "bodyAllowedForStatus code = (\<not> (100 \<le> code \<and> code \<le> 199) \<and> code \<noteq> 204 \<and> code \<noteq> 304)"

text \<open>
  \<^verbatim>\<open>Write\<close> sends status 200 first when no status has been sent, and drops the bytes
  when the status allows no body.
\<close>

definition Write :: "string \<Rightarrow> response \<Rightarrow> response" where
  "Write b w =
     (let w' = WriteHeader 200 w
      in case resp_status w' of
           None \<Rightarrow> w'
         | Some code \<Rightarrow>
             if bodyAllowedForStatus code then w'\<lparr>resp_body := resp_body w' @ b\<rparr> else w')"

text \<open>
  A request: its headers under their canonical names, the path variables of the
  router, and what reading the body to its end gives (the bytes and the error).
\<close>

record request =
  req_header :: "string \<rightharpoonup> string list"
  req_vars :: "string \<rightharpoonup> string"
  req_body :: "string \<times> error option"

definition Header_Get :: "(string \<rightharpoonup> string list) \<Rightarrow> string \<Rightarrow> string" where
  "Header_Get h k = (case h k of None \<Rightarrow> [] | Some [] \<Rightarrow> [] | Some (v # _) \<Rightarrow> v)"

text \<open>Indexing a Go map of strings: the empty string for a missing key.\<close>

definition index_vars :: "(string \<rightharpoonup> string) \<Rightarrow> string \<Rightarrow> string" where
  "index_vars m k = (case m k of None \<Rightarrow> [] | Some v \<Rightarrow> v)"

definition TrimPrefix :: "string \<Rightarrow> string \<Rightarrow> string" where
  "TrimPrefix s p = (if take (length p) s = p then drop (length p) s else s)"

subsection \<open>\<^verbatim>\<open>crc32.ChecksumIEEE\<close> and \<^verbatim>\<open>fmt.Sprintf("%08x", _)\<close>\<close>

text \<open>
  The CRC-32 of the IEEE polynomial, reflected (\<open>0xedb88320\<close>), bit by bit: the
  register starts at \<open>0xffffffff\<close>, takes each byte into its low end, and is
  complemented at the end.
\<close>

definition crc_shift :: "32 word \<Rightarrow> 32 word" where
  "crc_shift c = (if bit c 0 then drop_bit 1 c XOR 0xedb88320 else drop_bit 1 c)"

definition crc_byte :: "32 word \<Rightarrow> char \<Rightarrow> 32 word" where
  "crc_byte c b = (crc_shift ^^ 8) (c XOR of_char b)"

definition ChecksumIEEE :: "string \<Rightarrow> 32 word" where
  "ChecksumIEEE bs = NOT (foldl crc_byte 0xffffffff bs)"

definition hex_digit :: "nat \<Rightarrow> char" where
  "hex_digit d = ''0123456789abcdef'' ! d"

text \<open>\<^verbatim>\<open>%x\<close>: the digits in base 16, lowercase, at least one.\<close>

fun fmt_x :: "nat \<Rightarrow> string" where
  "fmt_x n = (if n < 16 then [hex_digit n] else fmt_x (n div 16) @ [hex_digit (n mod 16)])"

declare fmt_x.simps [simp del]

text \<open>\<^verbatim>\<open>%08x\<close>: padded with zeros on the left to a width of 8.\<close>

definition fmt_08x :: "nat \<Rightarrow> string" where
  "fmt_08x n = replicate (8 - length (fmt_x n)) (CHR ''0'') @ fmt_x n"

text \<open>Reading a string of lowercase hexadecimal digits as a number.\<close>

definition hex_digit_value :: "char \<Rightarrow> nat" where
  "hex_digit_value ch =
     (if (of_char ch :: nat) < 58 then of_char ch - 48 else of_char ch - 87)"

definition hex_value :: "string \<Rightarrow> nat" where
  "hex_value s = foldl (\<lambda>a ch. 16 * a + hex_digit_value ch) 0 s"

subsection \<open>The handlers of \<^verbatim>\<open>Start\<close>\<close>

text \<open>
  What a handler talks to besides the session: the RPC client (the error of
  \<^verbatim>\<open>DeleteWHIPResource\<close>; the fragment and the error of \<^verbatim>\<open>ICERestartWHIPResource\<close>),
  \<^verbatim>\<open>ScherbanExtractDetails\<close>, and \<open>asPsrpc\<close>, which stands for
  \<^verbatim>\<open>errors.As(err, &psrpcErr)\<close>: for an error of the RPC layer, its
  \<^verbatim>\<open>ToHttp()\<close> and its \<^verbatim>\<open>Error()\<close>.
\<close>

datatype rpc_call =
    DeleteWHIPResource string string string
  | ICERestartWHIPResource string string string string string

record server =
  rpc_Delete :: "string \<Rightarrow> string \<Rightarrow> string \<Rightarrow> error option"
  rpc_ICERestart :: "string \<Rightarrow> string \<Rightarrow> string \<Rightarrow> string \<Rightarrow> string \<Rightarrow> string \<times> error option"
  ScherbanExtractDetails :: "string \<Rightarrow> string \<times> string \<times> error option"
  asPsrpc :: "error \<Rightarrow> (nat \<times> string) option"

text \<open>
  The state of one exchange: the response writer, the RPC calls made, and the errors
  that \<^verbatim>\<open>handleError\<close> was given.
\<close>

record exchange =
  rw :: response
  rpc_log :: "rpc_call list"
  err_log :: "error list"

definition new_exchange :: exchange where
  "new_exchange =
     \<lparr>rw = \<lparr>resp_header = Map.empty, resp_status = None, resp_body = []\<rparr>,
      rpc_log = [], err_log = []\<rparr>"

definition handleError :: "server \<Rightarrow> error option \<Rightarrow> exchange \<Rightarrow> exchange" where
  "handleError s err x =
     (case err of
        None \<Rightarrow> x
      | Some e \<Rightarrow>
          (case asPsrpc s e of
             Some (code, msg) \<Rightarrow>
               x\<lparr>rw := Write msg (WriteHeader code (rw x)), err_log := err_log x @ [e]\<rparr>
           | None \<Rightarrow> x\<lparr>rw := WriteHeader 500 (rw x), err_log := err_log x @ [e]\<rparr>))"

text \<open>\<^verbatim>\<open>handleNewWhipClient\<close> (lines 308--336), with the session it created.\<close>

definition handleNewWhipClient ::
  "collab \<Rightarrow> request \<Rightarrow> string \<Rightarrow> exchange \<Rightarrow>
   (error option \<times> exchange) outcome \<times> stream_run option" where
  "handleNewWhipClient c r streamKey x =
     (let app = index_vars (req_vars r) ''app'';
          (sdpOffer, err) = req_body r
      in if err \<noteq> None then (Returns (err, x), None)
         else
           (let run = createStream c streamKey sdpOffer
            in case returned run of
                 Panics \<Rightarrow> (Panics, Some run)
               | Returns (resourceId, sdp, err) \<Rightarrow>
                   if err \<noteq> None then (Returns (err, x), Some run)
                   else
                     (Returns (None,
                        x\<lparr>rw :=
                           Write sdp
                            (WriteHeader 201
                              (Header_Set ''ETag'' (fmt_08x (unat (ChecksumIEEE sdpOffer)))
                                (Header_Set ''Location''
                                   (''/'' @ app @ ''/'' @ streamKey @ ''/'' @ resourceId)
                                  (Header_Set ''Content-Type'' ''application/sdp''
                                    (Header_Set ''Access-Control-Expose-Headers'' ''Location, ETag''
                                      (Header_Set ''Access-Control-Allow-Origin'' ''*'' (rw x)))))))\<rparr>),
                      Some run)))"

text \<open>
  The deferred \<^verbatim>\<open>handleError(err, w)\<close> of the two \<^verbatim>\<open>POST\<close> handlers. When
  \<^verbatim>\<open>handleNewWhipClient\<close> panics, \<^verbatim>\<open>err\<close> is still \<^verbatim>\<open>nil\<close>, the deferred call
  does nothing, and the panic goes on to the caller.
\<close>

definition finishPost ::
  "server \<Rightarrow> (error option \<times> exchange) outcome \<times> stream_run option \<Rightarrow>
   exchange outcome \<times> stream_run option" where
  "finishPost s res =
     (case fst res of
        Panics \<Rightarrow> (Panics, snd res)
      | Returns (err, x) \<Rightarrow> (Returns (handleError s err x), snd res))"

text \<open>\<^verbatim>\<open>POST /{app}\<close> (lines 94--105).\<close>

definition postApp ::
  "server \<Rightarrow> collab \<Rightarrow> request \<Rightarrow> exchange \<Rightarrow> exchange outcome \<times> stream_run option" where
  "postApp s c r x =
     (let bearer = Header_Get (req_header r) ''Authorization'';
          streamKey = TrimPrefix bearer ''Bearer ''
      in finishPost s (handleNewWhipClient c r streamKey x))"

text \<open>\<^verbatim>\<open>POST /{app}/{stream_key}\<close> (lines 107--116).\<close>

definition postAppStreamKey ::
  "server \<Rightarrow> collab \<Rightarrow> request \<Rightarrow> exchange \<Rightarrow> exchange outcome \<times> stream_run option" where
  "postAppStreamKey s c r x =
     (let streamKey = index_vars (req_vars r) ''stream_key''
      in finishPost s (handleNewWhipClient c r streamKey x))"

text \<open>\<^verbatim>\<open>DELETE /{app}/{stream_key}/{resource_id}\<close> (lines 129--152).\<close>

definition deleteResource :: "server \<Rightarrow> request \<Rightarrow> exchange \<Rightarrow> exchange" where
  "deleteResource s r x =
     (let streamKey = index_vars (req_vars r) ''stream_key'';
          resourceID = index_vars (req_vars r) ''resource_id'';
          x1 = x\<lparr>rw := Header_Set ''Access-Control-Allow-Origin'' ''*'' (rw x)\<rparr>;
          err = rpc_Delete s resourceID resourceID streamKey;
          x2 = x1\<lparr>rpc_log := rpc_log x1 @ [DeleteWHIPResource resourceID resourceID streamKey]\<rparr>;
          err = (if err = Some ErrNoResponse then Some ErrIngressNotFound else err)
      in handleError s err x2)"

text \<open>\<^verbatim>\<open>PATCH /{app}/{stream_key}/{resource_id}\<close> (lines 155--218).\<close>

definition patchResource :: "server \<Rightarrow> request \<Rightarrow> exchange \<Rightarrow> exchange" where
  "patchResource s r x =
     (let streamKey = index_vars (req_vars r) ''stream_key'';
          resourceID = index_vars (req_vars r) ''resource_id'';
          x1 = x\<lparr>rw := Header_Set ''Access-Control-Allow-Origin'' ''*'' (rw x)\<rparr>
      in if Header_Get (req_header r) ''If-Match'' \<noteq> ''*''
         then x1\<lparr>rw := WriteHeader 204 (rw x1)\<rparr>
         else
           (let (body, err) = req_body r
            in if err \<noteq> None then handleError s (Some ErrInvalidWHIPRestartRequest) x1
               else
                 (let (userFragment, password, err) = ScherbanExtractDetails s body
                  in if err \<noteq> None then handleError s (Some ErrInvalidWHIPRestartRequest) x1
                     else if userFragment = [] \<or> password = []
                     then handleError s (Some ErrInvalidWHIPRestartRequest) x1
                     else
                       (let (frag, err) =
                              rpc_ICERestart s resourceID userFragment password resourceID streamKey;
                            x2 = x1\<lparr>rpc_log := rpc_log x1 @
                                   [ICERestartWHIPResource resourceID userFragment password
                                      resourceID streamKey]\<rparr>
                        in if err = Some ErrNoResponse
                           then handleError s (Some ErrIngressNotFound) x2
                           else if err \<noteq> None then handleError s err x2
                           else
                             x2\<lparr>rw :=
                                Write frag
                                 (WriteHeader 200
                                   (Header_Set ''ETag'' (fmt_08x (unat (ChecksumIEEE frag)))
                                     (Header_Set ''Content-Type''
                                        ''application/trickle-ice-sdpfrag'' (rw x2))))\<rparr>))))"

text \<open>
  The response to a create request as the protocol wants it: status 201, the answer as
  the body, the content type, the location of the resource, the entity tag (eight
  lowercase hexadecimal digits that read as the checksum of the offer), and the two
  CORS headers.
\<close>

definition lower_hex :: "string \<Rightarrow> bool" where
  "lower_hex s = list_all (\<lambda>ch. ch \<in> set ''0123456789abcdef'') s"

definition created_response ::
  "string \<Rightarrow> string \<Rightarrow> string \<Rightarrow> string \<Rightarrow> string \<Rightarrow> exchange \<Rightarrow> bool" where
  "created_response app streamKey resourceId sdpOffer sdp x =
     (resp_status (rw x) = Some 201 \<and>
      resp_body (rw x) = sdp \<and>
      resp_header (rw x) ''Content-Type'' = Some ''application/sdp'' \<and>
      resp_header (rw x) ''Location'' =
        Some (''/'' @ app @ ''/'' @ streamKey @ ''/'' @ resourceId) \<and>
      (case resp_header (rw x) ''ETag'' of
         None \<Rightarrow> False
       | Some etag \<Rightarrow>
           length etag = 8 \<and>
           lower_hex etag \<and>
           hex_value etag = unat (ChecksumIEEE sdpOffer)) \<and>
      resp_header (rw x) ''Access-Control-Allow-Origin'' = Some ''*'' \<and>
      resp_header (rw x) ''Access-Control-Expose-Headers'' = Some ''Location, ETag'')"

text \<open>The stream key that the session of a create request gave to \<^verbatim>\<open>onPublish\<close>.\<close>

definition session_key :: "exchange outcome \<times> stream_run option \<Rightarrow> string option" where
  "session_key res =
     (case snd res of
        None \<Rightarrow> None
      | Some run \<Rightarrow>
          (case sync_events run of
             OnPublishCalled streamKey resourceId # _ \<Rightarrow> Some streamKey
           | _ \<Rightarrow> None))"

section \<open>Example collaborators\<close>

text \<open>
  A session that goes well: \<^verbatim>\<open>onPublish\<close> gives both callbacks, \<^verbatim>\<open>ready\<close> returns a
  stats gatherer when it is told of no error, all tracks start, and the session ends
  without an error.
\<close>

definition ready_stats :: readyFn where
  "ready_stats mimeTypes err = (if err = None then Some 7 else None)"

definition demo :: collab where
  "demo =
     \<lparr>NewGuid = ''WH_abc'',
      NewWHIPHandler = 1,
      onPublish = (\<lambda>streamKey resourceId h. (0, Some ready_stats, Some (), None)),
      h_Init = (\<lambda>p sdpOffer. (''answer'', None)),
      h_Start = (Some [(''audio'', ''audio/opus'')], None),
      h_WaitForSessionEnd = Some None\<rparr>"

text \<open>The same session when \<^verbatim>\<open>Start\<close> runs into its deadline.\<close>

definition demo_start_timeout :: collab where
  "demo_start_timeout = demo\<lparr>h_Start := (None, Some DeadlineExceeded)\<rparr>"

text \<open>The same session when \<^verbatim>\<open>Init\<close> runs into its deadline.\<close>

definition demo_init_timeout :: collab where
  "demo_init_timeout = demo\<lparr>h_Init := (\<lambda>p sdpOffer. ([], Some DeadlineExceeded))\<rparr>"

definition demo_init_timeout_trace :: "event list" where
  "demo_init_timeout_trace =
     [OnPublishCalled ''key'' ''WH_abc'', InitCalled ''v=0'',
      ReadyCalled None (Some DeadlineExceeded)]"

text \<open>A publisher that \<^verbatim>\<open>onPublish\<close> turns away.\<close>

definition demo_unauthorized :: collab where
  "demo_unauthorized =
     demo\<lparr>onPublish :=
            (\<lambda>streamKey resourceId h. (0, None, None, Some (PsrpcError 401 ''unauthorized'')))\<rparr>"

text \<open>A publisher whose \<^verbatim>\<open>onPublish\<close> returns no \<^verbatim>\<open>ready\<close> callback.\<close>

definition demo_nil_ready :: collab where
  "demo_nil_ready =
     demo\<lparr>onPublish := (\<lambda>streamKey resourceId h. (0, None, Some (), None))\<rparr>"

text \<open>
  A session without a \<^verbatim>\<open>ready\<close> callback whose \<^verbatim>\<open>Start\<close> runs into its deadline,
  and one whose \<^verbatim>\<open>Init\<close> does.
\<close>

definition demo_nil_ready_start_timeout :: collab where
  "demo_nil_ready_start_timeout = demo_nil_ready\<lparr>h_Start := (None, Some DeadlineExceeded)\<rparr>"

definition demo_nil_ready_init_timeout :: collab where
  "demo_nil_ready_init_timeout =
     demo_nil_ready\<lparr>h_Init := (\<lambda>p sdpOffer. ([], Some DeadlineExceeded))\<rparr>"

text \<open>
  One run of \<open>demo\<close>: the session ends, and the handler is deleted, between the call
  of \<^verbatim>\<open>ready\<close> and the attaching of the stats gatherer.
\<close>

definition demo_trace :: "event list" where
  "demo_trace =
     [OnPublishCalled ''key'' ''WH_abc'', InitCalled ''v=0'',
      HandlerStored ''WH_abc'' 1, StartCalled, InfoLogged,
      WaitForSessionEndCalled,
      ReadyCalled (Some [(''audio'', ''audio/opus'')]) None,
      HandlerDeleted ''WH_abc'',
      StatsGathererSet 7,
      EndedCalled None]"

text \<open>The run of \<open>demo_start_timeout\<close>.\<close>

definition demo_start_timeout_trace :: "event list" where
  "demo_start_timeout_trace =
     [OnPublishCalled ''key'' ''WH_abc'', InitCalled ''v=0'',
      HandlerStored ''WH_abc'' 1, StartCalled,
      ReadyCalled None (Some DeadlineExceeded),
      HandlerDeleted ''WH_abc'']"

text \<open>The run of \<open>demo_nil_ready\<close>: nothing is deferred, so there is one run only.\<close>

definition demo_nil_ready_trace :: "event list" where
  "demo_nil_ready_trace =
     [OnPublishCalled ''key'' ''WH_abc'', InitCalled ''v=0'',
      HandlerStored ''WH_abc'' 1, StartCalled, InfoLogged,
      WaitForSessionEndCalled, HandlerDeleted ''WH_abc'', EndedCalled None]"

text \<open>The run of \<open>demo_nil_ready_start_timeout\<close>.\<close>

definition demo_nil_ready_start_timeout_trace :: "event list" where
  "demo_nil_ready_start_timeout_trace =
     [OnPublishCalled ''key'' ''WH_abc'', InitCalled ''v=0'',
      HandlerStored ''WH_abc'' 1, StartCalled]"

section \<open>Example requests\<close>

text \<open>
  An RPC client that finds no owner of the resource, a fragment parser that finds
  credentials, and a classification of errors in which the sentinels of
  \<^verbatim>\<open>pkg/errors\<close> and \<^verbatim>\<open>psrpc.ErrNoResponse\<close> are errors of the RPC layer.
\<close>

definition demo_server :: server where
  "demo_server =
     \<lparr>rpc_Delete = (\<lambda>topic resourceId streamKey. Some ErrNoResponse),
      rpc_ICERestart = (\<lambda>topic ufrag pwd resourceId streamKey. ([], Some ErrNoResponse)),
      ScherbanExtractDetails = (\<lambda>body. (''ufrag'', ''pwd'', None)),
      asPsrpc = (\<lambda>e. case e of
                    ErrNoResponse \<Rightarrow> Some (503, ''no response from servers'')
                  | ErrIngressNotFound \<Rightarrow> Some (404, ''ingress not found'')
                  | ErrInvalidWHIPRestartRequest \<Rightarrow> Some (400, ''invalid restart request'')
                  | PsrpcError code msg \<Rightarrow> Some (code, msg)
                  | _ \<Rightarrow> None)\<rparr>"

definition demo_request :: request where
  "demo_request =
     \<lparr>req_header = [''Authorization'' \<mapsto> [''Bearer abc''], ''If-Match'' \<mapsto> [''*'']],
      req_vars = [''app'' \<mapsto> ''app'', ''stream_key'' \<mapsto> ''abc'', ''resource_id'' \<mapsto> ''WH_abc''],
      req_body = (''v=0'', None)\<rparr>"

text \<open>The same request with an entity tag in \<^verbatim>\<open>If-Match\<close>.\<close>

definition demo_request_etag :: request where
  "demo_request_etag = demo_request\<lparr>req_header := [''If-Match'' \<mapsto> [''cbf43926'']]\<rparr>"

text \<open>The same request with the bare stream key in \<^verbatim>\<open>Authorization\<close>.\<close>

definition demo_request_raw :: request where
  "demo_request_raw = demo_request\<lparr>req_header := [''Authorization'' \<mapsto> [''abc'']]\<rparr>"

section \<open>Runs and interleavings\<close>

lemma calls_Nil [simp]: "calls P [] = 0"
  by (simp add: calls_def)

lemma calls_Cons [simp]: "calls P (x # xs) = (if P x then Suc (calls P xs) else calls P xs)"
  by (simp add: calls_def)

lemma calls_append: "calls P (xs @ ys) = calls P xs + calls P ys"
  by (simp add: calls_def)

lemma calls_shuffles: "t \<in> shuffles xs ys \<Longrightarrow> calls P t = calls P xs + calls P ys"
proof -
  assume "t \<in> shuffles xs ys"
  then have "filter P t \<in> filter P ` shuffles xs ys" by blast
  then have "filter P t \<in> shuffles (filter P xs) (filter P ys)"
    by (simp add: filter_shuffles)
  then show ?thesis by (simp add: calls_def length_shuffles)
qed

lemma shuffles_nonempty: "shuffles xs ys \<noteq> {}"
  using splice_in_shuffles by blast

lemma session_traces_nonempty: "session_traces r \<noteq> {}"
  by (auto simp: session_traces_def task_traces_def shuffles_nonempty split: option.splits)

lemma calls_ready_deferred [simp]: "calls is_ready (readyDeferred f rid m e) = 1"
  by (simp add: readyDeferred_def calls_append split: option.splits)

lemma calls_ready_end [simp]: "calls is_ready (sessionEndGoroutine c rid ended) = 0"
  by (simp add: sessionEndGoroutine_def calls_append split: option.splits)

section \<open>The ready callback\<close>

text \<open>
  C1, amended. When \<^verbatim>\<open>onPublish\<close> succeeds and gives a ready callback, every
  complete run of the session calls it exactly once: before \<^verbatim>\<open>createStream\<close>
  returns when \<^verbatim>\<open>Init\<close> fails (and then nothing runs in the background), and
  otherwise in the deferred function of the background goroutine, whatever
  \<^verbatim>\<open>Start\<close> returns. When \<^verbatim>\<open>onPublish\<close> succeeds and gives no ready
  callback, and \<^verbatim>\<open>Init\<close> succeeds, no run calls one: the deferred function is
  registered only when \<^verbatim>\<open>ready\<close> is not \<^verbatim>\<open>nil\<close>. When \<^verbatim>\<open>onPublish\<close>
  fails, no run calls one.
\<close>

theorem ready_called_exactly_once:
  assumes pub: "onPublish c streamKey (NewGuid c) (NewWHIPHandler c) = (p, ready, ended, err)"
    and run: "run = createStream c streamKey sdpOffer"
    and t: "t \<in> session_traces run"
  shows "(err \<noteq> None \<longrightarrow> calls is_ready t = 0) \<and>
         (err = None \<and> ready \<noteq> None \<longrightarrow>
            calls is_ready t = 1 \<and>
            (if snd (h_Init c p sdpOffer) \<noteq> None
             then calls is_ready (sync_events run) = 1 \<and> background run = None
             else calls is_ready (sync_events run) = 0 \<and>
                  (\<exists>task. background run = Some task \<and>
                     calls is_ready (body_events task) = 0 \<and>
                     calls is_ready (deferred_events task) = 1 \<and>
                     (\<forall>g. spawned_events task = Some g \<longrightarrow> calls is_ready g = 0)))) \<and>
         (err = None \<and> ready = None \<and> snd (h_Init c p sdpOffer) = None \<longrightarrow>
            calls is_ready t = 0)"
proof (intro conjI impI)
  assume "err \<noteq> None"
  with pub run t show "calls is_ready t = 0"
    by (auto simp: createStream_def session_traces_def Let_def)
next
  assume "err = None \<and> ready = None \<and> snd (h_Init c p sdpOffer) = None"
  with pub run t show "calls is_ready t = 0"
    by (cases "h_Init c p sdpOffer"; cases "h_Start c")
       (auto simp: createStream_def session_traces_def task_traces_def Let_def
          sessionStartGoroutine_def calls_append calls_shuffles
        split: if_splits)
next
  assume ok: "err = None \<and> ready \<noteq> None"
  then obtain f where f: "ready = Some f" by auto
  obtain sdp ierr where init: "h_Init c p sdpOffer = (sdp, ierr)" by (cases "h_Init c p sdpOffer")
  obtain m serr where start: "h_Start c = (m, serr)" by (cases "h_Start c")
  show "calls is_ready t = 1"
  proof (cases "ierr = None")
    case False
    with pub run t ok f init show ?thesis
      by (auto simp: createStream_def session_traces_def Let_def)
  next
    case True
    with pub run t ok f init start show ?thesis
      by (auto simp: createStream_def session_traces_def task_traces_def Let_def
            sessionStartGoroutine_def calls_append calls_shuffles
          split: if_splits)
  qed
  show "if snd (h_Init c p sdpOffer) \<noteq> None
        then calls is_ready (sync_events run) = 1 \<and> background run = None
        else calls is_ready (sync_events run) = 0 \<and>
             (\<exists>task. background run = Some task \<and>
                calls is_ready (body_events task) = 0 \<and>
                calls is_ready (deferred_events task) = 1 \<and>
                (\<forall>g. spawned_events task = Some g \<longrightarrow> calls is_ready g = 0))"
    using pub run ok f init start
    by (auto simp: createStream_def sessionStartGoroutine_def Let_def)
qed

lemma demo_publishes:
  "onPublish demo ''key'' (NewGuid demo) (NewWHIPHandler demo) = (0, Some ready_stats, Some (), None)"
  by (simp add: demo_def)

lemma demo_trace_run: "demo_trace \<in> session_traces (createStream demo ''key'' ''v=0'')"
  by (simp add: demo_trace_def session_traces_def task_traces_def createStream_def demo_def
      sessionStartGoroutine_def sessionEndGoroutine_def readyDeferred_def ready_stats_def
      Let_def Cons_in_shuffles_iff image_iff)

lemma demo_init_timeout_publishes:
  "onPublish demo_init_timeout ''key'' (NewGuid demo_init_timeout) (NewWHIPHandler demo_init_timeout)
     = (0, Some ready_stats, Some (), None)"
  by (simp add: demo_init_timeout_def demo_def)

lemma demo_init_timeout_run:
  "demo_init_timeout_trace \<in> session_traces (createStream demo_init_timeout ''key'' ''v=0'')"
  by (simp add: demo_init_timeout_trace_def session_traces_def createStream_def
      demo_init_timeout_def demo_def Let_def)

lemma demo_unauthorized_publishes:
  "onPublish demo_unauthorized ''key'' (NewGuid demo_unauthorized) (NewWHIPHandler demo_unauthorized)
     = (0, None, None, Some (PsrpcError 401 ''unauthorized''))"
  by (simp add: demo_unauthorized_def demo_def)

lemma demo_unauthorized_run:
  "[OnPublishCalled ''key'' ''WH_abc'']
     \<in> session_traces (createStream demo_unauthorized ''key'' ''v=0'')"
  by (simp add: session_traces_def createStream_def demo_unauthorized_def demo_def Let_def)

lemma demo_nil_ready_publishes:
  "onPublish demo_nil_ready ''key'' (NewGuid demo_nil_ready) (NewWHIPHandler demo_nil_ready)
     = (0, None, Some (), None)"
  by (simp add: demo_nil_ready_def demo_def)

lemma demo_nil_ready_runs:
  "session_traces (createStream demo_nil_ready ''key'' ''v=0'') = {demo_nil_ready_trace}"
  by (simp add: demo_nil_ready_trace_def session_traces_def task_traces_def createStream_def
      demo_nil_ready_def demo_def sessionStartGoroutine_def sessionEndGoroutine_def Let_def)

lemma demo_nil_ready_run:
  "demo_nil_ready_trace \<in> session_traces (createStream demo_nil_ready ''key'' ''v=0'')"
  by (simp add: demo_nil_ready_runs)

theorem ready_called_exactly_once_witness:
  "demo_trace \<in> session_traces (createStream demo ''key'' ''v=0'') \<and>
   calls is_ready demo_trace = 1 \<and>
   calls is_ready (sync_events (createStream demo ''key'' ''v=0'')) = 0 \<and>
   demo_init_timeout_trace \<in> session_traces (createStream demo_init_timeout ''key'' ''v=0'') \<and>
   calls is_ready demo_init_timeout_trace = 1 \<and>
   calls is_ready (sync_events (createStream demo_init_timeout ''key'' ''v=0'')) = 1 \<and>
   [OnPublishCalled ''key'' ''WH_abc'']
     \<in> session_traces (createStream demo_unauthorized ''key'' ''v=0'') \<and>
   calls is_ready [OnPublishCalled ''key'' ''WH_abc''] = 0 \<and>
   demo_nil_ready_trace \<in> session_traces (createStream demo_nil_ready ''key'' ''v=0'') \<and>
   snd (h_Init demo_nil_ready 0 ''v=0'') = None \<and>
   calls is_ready demo_nil_ready_trace = 0"
  using ready_called_exactly_once [OF demo_publishes refl demo_trace_run]
        ready_called_exactly_once [OF demo_init_timeout_publishes refl demo_init_timeout_run]
        ready_called_exactly_once [OF demo_unauthorized_publishes refl demo_unauthorized_run]
        ready_called_exactly_once [OF demo_nil_ready_publishes refl demo_nil_ready_run]
        demo_trace_run demo_init_timeout_run demo_unauthorized_run demo_nil_ready_run
  by (simp add: demo_def demo_init_timeout_def demo_nil_ready_def)

text \<open>
  C1, as the claim has it, fails in a session that has no \<^verbatim>\<open>ready\<close> callback:
  \<^verbatim>\<open>onPublish\<close> of \<open>demo_nil_ready\<close> succeeds, \<^verbatim>\<open>Init\<close> and \<^verbatim>\<open>Start\<close>
  succeed, and the one run of the session calls no ready callback.
\<close>

theorem no_ready_callback_counterexample:
  "onPublish demo_nil_ready ''key'' (NewGuid demo_nil_ready) (NewWHIPHandler demo_nil_ready)
     = (0, None, Some (), None) \<and>
   session_traces (createStream demo_nil_ready ''key'' ''v=0'') = {demo_nil_ready_trace} \<and>
   calls is_ready demo_nil_ready_trace = 0"
  using demo_nil_ready_publishes demo_nil_ready_runs
  by (simp add: demo_nil_ready_trace_def)

section \<open>The ended callback\<close>

lemma calls_ended_deferred [simp]: "calls is_ended (readyDeferred f rid m e) = 0"
  by (simp add: readyDeferred_def calls_append split: option.splits)

lemma calls_ended_end [simp]:
  "calls is_ended (sessionEndGoroutine c rid ended) =
     (if ended \<noteq> None \<and> h_WaitForSessionEnd c \<noteq> None then 1 else 0)"
  by (simp add: sessionEndGoroutine_def calls_append split: option.splits)

text \<open>
  C4. In every complete run of a session, \<^verbatim>\<open>ended\<close> is called at most once, and it is
  called exactly when \<^verbatim>\<open>onPublish\<close> gave one, \<^verbatim>\<open>Init\<close> and \<^verbatim>\<open>Start\<close>
  succeeded and \<^verbatim>\<open>WaitForSessionEnd\<close> returned; it is given what
  \<^verbatim>\<open>WaitForSessionEnd\<close> returned.
\<close>

theorem ended_called_iff_started:
  assumes pub: "onPublish c streamKey (NewGuid c) (NewWHIPHandler c) = (p, ready, ended, err)"
    and t: "t \<in> session_traces (createStream c streamKey sdpOffer)"
  shows "calls is_ended t \<le> 1 \<and>
         (calls is_ended t = 1 \<longleftrightarrow>
            err = None \<and> ended \<noteq> None \<and> snd (h_Init c p sdpOffer) = None \<and>
            snd (h_Start c) = None \<and> h_WaitForSessionEnd c \<noteq> None) \<and>
         (\<forall>e. EndedCalled e \<in> set t \<longrightarrow> h_WaitForSessionEnd c = Some e)"
proof -
  obtain sdp ierr where init: "h_Init c p sdpOffer = (sdp, ierr)" by (cases "h_Init c p sdpOffer")
  obtain m serr where start: "h_Start c = (m, serr)" by (cases "h_Start c")
  have cnt: "calls is_ended t =
      (if err = None \<and> ended \<noteq> None \<and> ierr = None \<and> serr = None \<and>
          h_WaitForSessionEnd c \<noteq> None then 1 else 0)"
    using pub t init start
    by (auto simp: createStream_def session_traces_def task_traces_def Let_def
          sessionStartGoroutine_def calls_append calls_shuffles
        split: if_splits option.splits)
  have arg: "\<forall>e. EndedCalled e \<in> set t \<longrightarrow> h_WaitForSessionEnd c = Some e"
    using pub t init start
    by (auto simp: createStream_def session_traces_def task_traces_def Let_def
          sessionStartGoroutine_def readyDeferred_def sessionEndGoroutine_def
        dest!: set_shuffles split: if_splits option.splits)
  from cnt arg init start show ?thesis by simp
qed

lemma demo_start_timeout_publishes:
  "onPublish demo_start_timeout ''key'' (NewGuid demo_start_timeout)
     (NewWHIPHandler demo_start_timeout) = (0, Some ready_stats, Some (), None)"
  by (simp add: demo_start_timeout_def demo_def)

lemma demo_start_timeout_init:
  "snd (h_Init demo_start_timeout 0 ''v=0'') = None"
  by (simp add: demo_start_timeout_def demo_def)

lemma demo_start_timeout_run:
  "demo_start_timeout_trace \<in> session_traces (createStream demo_start_timeout ''key'' ''v=0'')"
  by (simp add: demo_start_timeout_trace_def session_traces_def task_traces_def createStream_def
      demo_start_timeout_def demo_def sessionStartGoroutine_def readyDeferred_def
      ready_stats_def Let_def)

theorem ended_called_iff_started_witness:
  "demo_trace \<in> session_traces (createStream demo ''key'' ''v=0'') \<and>
   calls is_ended demo_trace = 1 \<and>
   h_WaitForSessionEnd demo = Some None \<and>
   demo_start_timeout_trace \<in> session_traces (createStream demo_start_timeout ''key'' ''v=0'') \<and>
   calls is_ended demo_start_timeout_trace = 0 \<and>
   snd (h_Start demo_start_timeout) = Some DeadlineExceeded"
  using ended_called_iff_started [OF demo_publishes demo_trace_run]
        ended_called_iff_started [OF demo_start_timeout_publishes demo_start_timeout_run]
        demo_trace_run demo_start_timeout_run
  by (simp add: demo_def demo_start_timeout_def)

section \<open>Order of registration, removal and callbacks\<close>

lemma takeWhile_filter_ex:
  "list_ex P (takeWhile (\<lambda>e. \<not> Q e) (filter (\<lambda>e. P e \<or> Q e) es)) =
   list_ex P (takeWhile (\<lambda>e. \<not> Q e) es)"
  by (induction es) auto

lemma dropWhile_filter_Nil:
  "(dropWhile (\<lambda>e. \<not> Q e) (filter (\<lambda>e. P e \<or> Q e) es) = []) =
   (dropWhile (\<lambda>e. \<not> Q e) es = [])"
  by (induction es) auto

lemma list_ex_filter_either:
  "list_ex P (filter (\<lambda>e. P e \<or> Q e) es) = list_ex P es"
  by (induction es) auto

lemma dropWhile_filter_ex:
  "list_ex P (dropWhile (\<lambda>e. \<not> Q e) (filter (\<lambda>e. P e \<or> Q e) es)) =
   list_ex P (dropWhile (\<lambda>e. \<not> Q e) es)"
  by (induction es) (auto simp: list_ex_filter_either)

lemma precedes_filter:
  "precedes P Q es = precedes P Q (filter (\<lambda>e. P e \<or> Q e) es)"
  unfolding precedes_def
  by (simp only: takeWhile_filter_ex dropWhile_filter_Nil dropWhile_filter_ex)

lemma filter_in_shuffles:
  "t \<in> shuffles xs ys \<Longrightarrow> filter R t \<in> shuffles (filter R xs) (filter R ys)"
proof -
  assume "t \<in> shuffles xs ys"
  then have "filter R t \<in> filter R ` shuffles xs ys" by blast
  then show ?thesis by (simp add: filter_shuffles)
qed

lemma deferred_no_removal:
  "filter (\<lambda>e. is_deleted e \<or> is_ended e) (readyDeferred f rid m None) = []"
  by (simp add: readyDeferred_def split: option.splits)

lemma deferred_no_start:
  "filter (\<lambda>e. is_stored e \<or> is_start e) (readyDeferred f rid m e) = []"
  by (simp add: readyDeferred_def split: option.splits)

lemma end_no_start:
  "filter (\<lambda>e. is_stored e \<or> is_start e) (sessionEndGoroutine c rid ended) = []"
  by (simp add: sessionEndGoroutine_def split: option.splits)

lemma end_removal_then_ended:
  "h_WaitForSessionEnd c = Some e \<Longrightarrow>
   filter (\<lambda>e. is_deleted e \<or> is_ended e) (sessionEndGoroutine c rid (Some ()))
     = [HandlerDeleted rid, EndedCalled e]"
  by (simp add: sessionEndGoroutine_def)

text \<open>
  What holds of the order in every complete run of a session whose \<^verbatim>\<open>Init\<close>
  succeeded: the handler is stored strictly before \<^verbatim>\<open>Start\<close> is called, and when
  the session has started and ended, the handler is deleted strictly before
  \<^verbatim>\<open>ended\<close> is called.
\<close>

lemma registration_before_start_removal_before_ended:
  assumes pub: "onPublish c streamKey (NewGuid c) (NewWHIPHandler c) = (p, ready, ended, None)"
    and init: "snd (h_Init c p sdpOffer) = None"
    and t: "t \<in> session_traces (createStream c streamKey sdpOffer)"
  shows "precedes is_stored is_start t \<and>
         (snd (h_Start c) = None \<and> h_WaitForSessionEnd c \<noteq> None \<and> ended \<noteq> None \<longrightarrow>
            precedes is_deleted is_ended t)"
proof -
  obtain sdp where i: "h_Init c p sdpOffer = (sdp, None)"
    using init by (cases "h_Init c p sdpOffer") auto
  obtain m serr where s: "h_Start c = (m, serr)" by (cases "h_Start c")
  let ?rid = "NewGuid c"
  let ?d = "case ready of None \<Rightarrow> [] | Some f \<Rightarrow> readyDeferred f ?rid m serr"
  let ?g = "sessionEndGoroutine c ?rid ended"
  let ?pre = "[OnPublishCalled streamKey ?rid, InitCalled sdpOffer,
               HandlerStored ?rid (NewWHIPHandler c), StartCalled]"
  have shape_failed: "t = ?pre @ ?d" if "serr \<noteq> None"
    using pub i s t that
    by (auto simp: createStream_def session_traces_def task_traces_def Let_def
          sessionStartGoroutine_def)
  have shape_started: "\<exists>rest. rest \<in> shuffles ?d ?g \<and> t = ?pre @ InfoLogged # rest"
    if "serr = None"
    using pub i s t that
    by (auto simp: createStream_def session_traces_def task_traces_def Let_def
          sessionStartGoroutine_def)
  have d_start: "filter (\<lambda>e. is_stored e \<or> is_start e) ?d = []"
    by (simp add: deferred_no_start split: option.splits)
  have stored: "precedes is_stored is_start t"
  proof -
    have "filter (\<lambda>e. is_stored e \<or> is_start e) t =
          [HandlerStored ?rid (NewWHIPHandler c), StartCalled]"
    proof (cases "serr = None")
      case False
      from shape_failed [OF False] d_start show ?thesis by simp
    next
      case True
      from shape_started [OF True] obtain rest
        where rest: "rest \<in> shuffles ?d ?g" and t': "t = ?pre @ InfoLogged # rest" by blast
      from filter_in_shuffles [OF rest, of "\<lambda>e. is_stored e \<or> is_start e"] d_start
      have "filter (\<lambda>e. is_stored e \<or> is_start e) rest = []"
        by (simp add: end_no_start)
      with t' show ?thesis by simp
    qed
    then show ?thesis
      by (subst precedes_filter) (simp add: precedes_def)
  qed
  have ended: "precedes is_deleted is_ended t"
    if ok: "snd (h_Start c) = None" "h_WaitForSessionEnd c \<noteq> None" "ended \<noteq> None"
  proof -
    from ok obtain e where e: "h_WaitForSessionEnd c = Some e" by auto
    from ok have en: "ended = Some ()" by auto
    from ok s have serr: "serr = None" by simp
    have dd: "filter (\<lambda>e. is_deleted e \<or> is_ended e) ?d = []"
      using serr by (simp add: deferred_no_removal split: option.splits)
    from shape_started [OF serr] obtain rest
      where rest: "rest \<in> shuffles ?d ?g" and t': "t = ?pre @ InfoLogged # rest" by blast
    from filter_in_shuffles [OF rest, of "\<lambda>e. is_deleted e \<or> is_ended e"] dd en
    have "filter (\<lambda>e. is_deleted e \<or> is_ended e) rest = [HandlerDeleted ?rid, EndedCalled e]"
      by (simp add: end_removal_then_ended [OF e])
    with t' have "filter (\<lambda>e. is_deleted e \<or> is_ended e) t = [HandlerDeleted ?rid, EndedCalled e]"
      by simp
    then show ?thesis
      by (subst precedes_filter) (simp add: precedes_def)
  qed
  from stored ended show ?thesis by blast
qed

text \<open>
  What does not hold: whenever \<^verbatim>\<open>Start\<close> fails in a session that has a
  \<^verbatim>\<open>ready\<close> callback, the deferred function calls \<^verbatim>\<open>ready\<close> with the error
  while the registry still holds the handler, and deletes the handler only after the
  call.
\<close>

lemma ready_before_removal_on_start_failure:
  assumes pub: "onPublish c streamKey (NewGuid c) (NewWHIPHandler c) = (p, Some f, ended, None)"
    and init: "snd (h_Init c p sdpOffer) = None"
    and start: "h_Start c = (m, Some e)"
    and t: "t \<in> session_traces (createStream c streamKey sdpOffer)"
  shows "precedes is_ready is_deleted t \<and>
         \<not> precedes is_deleted is_ready t \<and>
         run_events handlers (takeWhile (\<lambda>e. \<not> is_ready e) t) (NewGuid c)
           = Some (Some (NewWHIPHandler c))"
proof -
  obtain sdp where i: "h_Init c p sdpOffer = (sdp, None)"
    using init by (cases "h_Init c p sdpOffer") auto
  have "t = [OnPublishCalled streamKey (NewGuid c), InitCalled sdpOffer,
             HandlerStored (NewGuid c) (NewWHIPHandler c), StartCalled]
            @ readyDeferred f (NewGuid c) m (Some e)"
    using pub i start t
    by (auto simp: createStream_def session_traces_def task_traces_def Let_def
          sessionStartGoroutine_def)
  then show ?thesis
    by (simp add: precedes_def readyDeferred_def run_events_def split: option.splits)
qed

text \<open>
  C3 fails where \<^verbatim>\<open>Start\<close> fails. In the one run of \<open>demo_start_timeout\<close>,
  whose \<^verbatim>\<open>Start\<close> runs into its deadline, the handler is not deleted before
  \<^verbatim>\<open>ready\<close> is called with the error, but after it: when \<^verbatim>\<open>ready\<close> is
  called, the registry still holds the handler.
\<close>

theorem start_failure_calls_ready_before_removal:
  "snd (h_Start demo_start_timeout) = Some DeadlineExceeded \<and>
   session_traces (createStream demo_start_timeout ''key'' ''v=0'') = {demo_start_timeout_trace} \<and>
   \<not> precedes is_deleted is_ready demo_start_timeout_trace \<and>
   precedes is_ready is_deleted demo_start_timeout_trace \<and>
   run_events Map.empty (takeWhile (\<lambda>e. \<not> is_ready e) demo_start_timeout_trace) ''WH_abc''
     = Some (Some 1)"
  by (simp add: demo_start_timeout_trace_def session_traces_def task_traces_def createStream_def
      demo_start_timeout_def demo_def sessionStartGoroutine_def readyDeferred_def
      ready_stats_def Let_def precedes_def run_events_def)

section \<open>Failure of the start phase and of the negotiation\<close>

lemma run_events_Nil [simp]: "run_events m [] = m"
  by (simp add: run_events_def)

lemma run_events_Cons [simp]: "run_events m (e # es) = run_events (apply_event m e) es"
  by (simp add: run_events_def)

lemma run_events_append: "run_events m (xs @ ys) = run_events (run_events m xs) ys"
  by (simp add: run_events_def)

text \<open>
  When \<^verbatim>\<open>Start\<close> fails in a session that has a \<^verbatim>\<open>ready\<close> callback, the one run
  of the session calls \<^verbatim>\<open>ready\<close> with what \<^verbatim>\<open>Start\<close> returned, leaves no entry
  for the session in the registry, changes no other entry, and never calls
  \<^verbatim>\<open>ended\<close>.
\<close>

lemma start_failure_removes_handler:
  assumes pub: "onPublish c streamKey (NewGuid c) (NewWHIPHandler c) = (p, Some f, ended, None)"
    and init: "snd (h_Init c p sdpOffer) = None"
    and start: "h_Start c = (m, Some e)"
    and t: "t \<in> session_traces (createStream c streamKey sdpOffer)"
  shows "run_events handlers t = handlers(NewGuid c := None) \<and>
         calls is_ended t = 0 \<and>
         filter is_ready t = [ReadyCalled m (Some e)]"
proof -
  obtain sdp where i: "h_Init c p sdpOffer = (sdp, None)"
    using init by (cases "h_Init c p sdpOffer") auto
  have "t = [OnPublishCalled streamKey (NewGuid c), InitCalled sdpOffer,
             HandlerStored (NewGuid c) (NewWHIPHandler c), StartCalled]
            @ readyDeferred f (NewGuid c) m (Some e)"
    using pub i start t
    by (auto simp: createStream_def session_traces_def task_traces_def Let_def
          sessionStartGoroutine_def)
  then show ?thesis
    by (auto simp: readyDeferred_def split: option.splits)
qed

text \<open>
  C2 fails in a session that has no \<^verbatim>\<open>ready\<close> callback: the deletion is part of
  the deferred function that is registered only when \<^verbatim>\<open>ready\<close> is not \<^verbatim>\<open>nil\<close>.
  When \<^verbatim>\<open>Start\<close> of \<open>demo_nil_ready_start_timeout\<close> runs into its deadline, the
  one run of the session ends with the handler still in the registry.
\<close>

theorem start_failure_without_ready_keeps_handler:
  "onPublish demo_nil_ready_start_timeout ''key'' ''WH_abc'' 1 = (0, None, Some (), None) \<and>
   snd (h_Start demo_nil_ready_start_timeout) = Some DeadlineExceeded \<and>
   session_traces (createStream demo_nil_ready_start_timeout ''key'' ''v=0'') =
     {demo_nil_ready_start_timeout_trace} \<and>
   run_events Map.empty demo_nil_ready_start_timeout_trace ''WH_abc'' = Some (Some 1) \<and>
   \<not> IsIdle (run_events Map.empty demo_nil_ready_start_timeout_trace) \<and>
   calls is_ended demo_nil_ready_start_timeout_trace = 0"
  by (simp add: demo_nil_ready_start_timeout_trace_def demo_nil_ready_start_timeout_def
      demo_nil_ready_def demo_def createStream_def session_traces_def task_traces_def
      sessionStartGoroutine_def Let_def IsIdle_def)

text \<open>
  When \<^verbatim>\<open>Init\<close> fails in a session that has a \<^verbatim>\<open>ready\<close> callback,
  \<^verbatim>\<open>createStream\<close> calls \<^verbatim>\<open>ready(nil, err)\<close> once, returns the error, and launches
  nothing: the one run of the session leaves the registry as it was.
\<close>

lemma init_failure_with_ready:
  assumes pub: "onPublish c streamKey (NewGuid c) (NewWHIPHandler c) = (p, Some f, ended, None)"
    and init: "h_Init c p sdpOffer = (sdp, Some e)"
  shows "returned (createStream c streamKey sdpOffer) = Returns ([], [], Some e) \<and>
         background (createStream c streamKey sdpOffer) = None \<and>
         session_traces (createStream c streamKey sdpOffer) =
           {[OnPublishCalled streamKey (NewGuid c), InitCalled sdpOffer,
             ReadyCalled None (Some e)]} \<and>
         (\<forall>t \<in> session_traces (createStream c streamKey sdpOffer).
             run_events handlers t = handlers)"
  using pub init
  by (simp add: createStream_def session_traces_def Let_def)

text \<open>
  C5 fails in a session that has no \<^verbatim>\<open>ready\<close> callback: \<^verbatim>\<open>ready(nil, err)\<close> is
  called without a test for \<^verbatim>\<open>nil\<close>. When \<^verbatim>\<open>Init\<close> of
  \<open>demo_nil_ready_init_timeout\<close> runs into its deadline, \<^verbatim>\<open>createStream\<close> panics
  and returns no error, and so does the handler of the create request.
\<close>

theorem init_failure_without_ready_panics:
  "onPublish demo_nil_ready_init_timeout ''abc'' ''WH_abc'' 1 = (0, None, Some (), None) \<and>
   snd (h_Init demo_nil_ready_init_timeout 0 ''v=0'') = Some DeadlineExceeded \<and>
   returned (createStream demo_nil_ready_init_timeout ''abc'' ''v=0'') = Panics \<and>
   fst (postAppStreamKey demo_server demo_nil_ready_init_timeout demo_request new_exchange)
     = Panics"
  by (simp add: demo_nil_ready_init_timeout_def demo_nil_ready_def demo_def createStream_def
      postAppStreamKey_def finishPost_def handleNewWhipClient_def demo_request_def
      index_vars_def Let_def)

section \<open>Formatting and checksum\<close>

lemma funpow8: "(f ^^ 8) x = f (f (f (f (f (f (f (f x)))))))"
  by (simp add: eval_nat_numeral)

text \<open>The check value of CRC-32: the checksum of the nine digits.\<close>

lemma ChecksumIEEE_check: "ChecksumIEEE ''123456789'' = 0xcbf43926"
  by (simp add: ChecksumIEEE_def crc_byte_def crc_shift_def funpow8)

lemma fmt_08x_check: "fmt_08x (unat (ChecksumIEEE ''123456789'')) = ''cbf43926''"
  by (simp add: ChecksumIEEE_check fmt_08x_def fmt_x.simps hex_digit_def)

lemma fmt_x_length: "n < 16 ^ k \<Longrightarrow> 0 < k \<Longrightarrow> length (fmt_x n) \<le> k"
proof (induction k arbitrary: n)
  case 0
  then show ?case by simp
next
  case (Suc k)
  show ?case
  proof (cases "n < 16")
    case True
    then show ?thesis by (simp add: fmt_x.simps)
  next
    case False
    with Suc.prems have "n div 16 < 16 ^ k" and "0 < k"
      by (auto simp: less_mult_imp_div_less intro: Suc_lessI gr0I)
    with Suc.IH have "length (fmt_x (n div 16)) \<le> k" by blast
    with False show ?thesis by (subst fmt_x.simps) simp
  qed
qed

lemma fmt_08x_length: "length (fmt_08x (unat (x :: 32 word))) = 8"
proof -
  have "unat x < 2 ^ 32" using unsigned_less [of x] by simp
  then have "unat x < 16 ^ 8" by simp
  then have "length (fmt_x (unat x)) \<le> 8" by (rule fmt_x_length) simp
  then show ?thesis by (simp add: fmt_08x_def)
qed

lemma hex_digit_value_digit: "d < 16 \<Longrightarrow> hex_digit_value (hex_digit d) = d"
proof -
  assume "d < 16"
  then have "d \<in> set [0..<16]" by simp
  moreover have "\<forall>d \<in> set [0..<16]. hex_digit_value (hex_digit d) = d"
    by code_simp
  ultimately show ?thesis by blast
qed

lemma hex_digit_lower: "d < 16 \<Longrightarrow> hex_digit d \<in> set ''0123456789abcdef''"
  unfolding hex_digit_def by (rule nth_mem) simp

lemma fmt_x_digits: "set (fmt_x n) \<subseteq> set ''0123456789abcdef''"
proof (induction n rule: fmt_x.induct)
  case (1 n)
  show ?case
  proof (cases "n < 16")
    case True
    with hex_digit_lower [of n] show ?thesis by (subst fmt_x.simps) simp
  next
    case False
    have "n mod 16 < 16" by simp
    with 1 False hex_digit_lower [of "n mod 16"] show ?thesis
      by (subst fmt_x.simps) simp
  qed
qed

lemma fmt_08x_digits: "set (fmt_08x n) \<subseteq> set ''0123456789abcdef''"
  using fmt_x_digits [of n] by (auto simp: fmt_08x_def)

lemma hex_value_snoc: "hex_value (s @ [ch]) = 16 * hex_value s + hex_digit_value ch"
  by (simp add: hex_value_def)

lemma hex_value_fmt_x: "hex_value (fmt_x n) = n"
proof (induction n rule: fmt_x.induct)
  case (1 n)
  show ?case
  proof (cases "n < 16")
    case True
    then show ?thesis
      by (subst fmt_x.simps) (simp add: hex_value_def hex_digit_value_digit)
  next
    case False
    with 1 have "hex_value (fmt_x (n div 16)) = n div 16" by simp
    with False show ?thesis
      by (subst fmt_x.simps) (simp add: hex_value_snoc hex_digit_value_digit)
  qed
qed

lemma hex_value_zeros: "hex_value (replicate k (CHR ''0'') @ s) = hex_value s"
proof (induction k)
  case 0
  then show ?case by simp
next
  case (Suc k)
  have "hex_value (CHR ''0'' # xs) = hex_value xs" for xs
    by (induction xs rule: rev_induct)
       (simp_all add: hex_value_def hex_digit_value_def)
  with Suc show ?case by simp
qed

lemma hex_value_fmt_08x: "hex_value (fmt_08x n) = n"
  by (simp add: fmt_08x_def hex_value_zeros hex_value_fmt_x)

section \<open>The create request\<close>

lemma lower_hex_fmt_08x: "lower_hex (fmt_08x n)"
  unfolding lower_hex_def list_all_iff using fmt_08x_digits [of n] by blast

lemma createStream_first_event:
  "\<exists>rest. sync_events (createStream c streamKey sdpOffer)
            = OnPublishCalled streamKey (NewGuid c) # rest"
  by (simp add: createStream_def Let_def split: prod.splits option.splits)

lemma handleNewWhipClient_session:
  "req_body r = (sdpOffer, None) \<Longrightarrow>
   snd (handleNewWhipClient c r streamKey x) = Some (createStream c streamKey sdpOffer)"
  by (simp add: handleNewWhipClient_def Let_def split: outcome.splits prod.splits)

lemma handleNewWhipClient_created:
  assumes body: "req_body r = (sdpOffer, None)"
    and created: "returned (createStream c streamKey sdpOffer) = Returns (resourceId, sdp, None)"
  shows "\<exists>x. fst (finishPost s (handleNewWhipClient c r streamKey new_exchange)) = Returns x \<and>
             created_response (index_vars (req_vars r) ''app'') streamKey resourceId sdpOffer sdp x"
  using body created
  by (simp add: finishPost_def handleNewWhipClient_def handleError_def new_exchange_def
      created_response_def Header_Set_def WriteHeader_def Write_def bodyAllowedForStatus_def
      Let_def fmt_08x_length hex_value_fmt_08x lower_hex_fmt_08x)

text \<open>
  C8. Whenever \<^verbatim>\<open>createStream\<close> succeeds on a create request, on either route, the
  response has status 201, the answer as its body, \<^verbatim>\<open>Content-Type: application/sdp\<close>,
  the location \<^verbatim>\<open>/{app}/{streamKey}/{resourceId}\<close>, an entity tag of eight lowercase
  hexadecimal digits that read as the CRC-32 of the offer, and the two CORS headers.
\<close>

theorem create_responds_created:
  assumes body: "req_body r = (sdpOffer, None)"
  shows "(returned (createStream c (index_vars (req_vars r) ''stream_key'') sdpOffer)
            = Returns (resourceId, sdp, None) \<longrightarrow>
          (\<exists>x. fst (postAppStreamKey s c r new_exchange) = Returns x \<and>
               created_response (index_vars (req_vars r) ''app'')
                 (index_vars (req_vars r) ''stream_key'') resourceId sdpOffer sdp x)) \<and>
         (returned (createStream c
              (TrimPrefix (Header_Get (req_header r) ''Authorization'') ''Bearer '') sdpOffer)
            = Returns (resourceId, sdp, None) \<longrightarrow>
          (\<exists>x. fst (postApp s c r new_exchange) = Returns x \<and>
               created_response (index_vars (req_vars r) ''app'')
                 (TrimPrefix (Header_Get (req_header r) ''Authorization'') ''Bearer '')
                 resourceId sdpOffer sdp x))"
  using handleNewWhipClient_created [OF body]
  by (simp add: postApp_def postAppStreamKey_def Let_def)

lemma demo_created:
  "returned (createStream demo ''abc'' ''v=0'') = Returns (''WH_abc'', ''answer'', None)"
  by (simp add: createStream_def demo_def Let_def)

theorem create_responds_created_witness:
  "req_body demo_request = (''v=0'', None) \<and>
   returned (createStream demo ''abc'' ''v=0'') = Returns (''WH_abc'', ''answer'', None) \<and>
   (\<exists>x. fst (postAppStreamKey demo_server demo demo_request new_exchange) = Returns x \<and>
        created_response ''app'' ''abc'' ''WH_abc'' ''v=0'' ''answer'' x) \<and>
   (\<exists>x. fst (postApp demo_server demo demo_request new_exchange) = Returns x \<and>
        created_response ''app'' ''abc'' ''WH_abc'' ''v=0'' ''answer'' x)"
proof -
  have b: "req_body demo_request = (''v=0'', None)"
    by (simp add: demo_request_def)
  have k: "index_vars (req_vars demo_request) ''stream_key'' = ''abc''"
    and a: "index_vars (req_vars demo_request) ''app'' = ''app''"
    and t: "TrimPrefix (Header_Get (req_header demo_request) ''Authorization'') ''Bearer '' = ''abc''"
    by (simp_all add: demo_request_def index_vars_def Header_Get_def TrimPrefix_def)
  from create_responds_created [OF b, of demo "''WH_abc''" "''answer''" demo_server]
  show ?thesis using b demo_created unfolding k a t by simp
qed

lemma TrimPrefix_prefix: "TrimPrefix (p @ k) p = k"
  by (simp add: TrimPrefix_def)

lemma TrimPrefix_no_prefix: "\<not> prefix p v \<Longrightarrow> TrimPrefix v p = v"
  by (auto simp: TrimPrefix_def prefix_def) (metis append_take_drop_id)

text \<open>
  C10. On the route \<^verbatim>\<open>POST /{app}\<close>, when the body has been read, the session is
  created with the value of the \<^verbatim>\<open>Authorization\<close> header less a leading
  \<^verbatim>\<open>Bearer \<close>, with the whole value when it does not start so, and with the empty
  string when the header is absent.
\<close>

theorem bearer_stream_key:
  assumes body: "snd (req_body r) = None"
  shows "(req_header r ''Authorization'' = Some ((''Bearer '' @ key) # vs) \<longrightarrow>
            session_key (postApp s c r x) = Some key) \<and>
         (req_header r ''Authorization'' = Some (v # vs) \<and> \<not> prefix ''Bearer '' v \<longrightarrow>
            session_key (postApp s c r x) = Some v) \<and>
         (req_header r ''Authorization'' = None \<longrightarrow>
            session_key (postApp s c r x) = Some [])"
proof -
  obtain sdpOffer where b: "req_body r = (sdpOffer, None)"
    using body by (cases "req_body r") auto
  have key: "session_key (finishPost s (handleNewWhipClient c r k x)) = Some k" for k
  proof -
    obtain rest where "sync_events (createStream c k sdpOffer) = OnPublishCalled k (NewGuid c) # rest"
      using createStream_first_event by blast
    moreover have "snd (finishPost s (handleNewWhipClient c r k x)) = Some (createStream c k sdpOffer)"
      using handleNewWhipClient_session [OF b]
      by (simp add: finishPost_def split: outcome.splits prod.splits)
    ultimately show ?thesis by (simp add: session_key_def)
  qed
  have bearer: "TrimPrefix (''Bearer '' @ key) ''Bearer '' = key"
    by (rule TrimPrefix_prefix)
  have absent: "TrimPrefix [] ''Bearer '' = []"
    by (simp add: TrimPrefix_def)
  have c1: "session_key (postApp s c r x) = Some key"
    if "req_header r ''Authorization'' = Some ((''Bearer '' @ key) # vs)"
    using that bearer by (simp add: postApp_def Let_def key Header_Get_def)
  have c2: "session_key (postApp s c r x) = Some v"
    if "req_header r ''Authorization'' = Some (v # vs)" "\<not> prefix ''Bearer '' v"
    using that TrimPrefix_no_prefix [of "''Bearer ''" v]
    by (simp add: postApp_def Let_def key Header_Get_def)
  have c3: "session_key (postApp s c r x) = Some []"
    if "req_header r ''Authorization'' = None"
    using that absent by (simp add: postApp_def Let_def key Header_Get_def)
  from c1 c2 c3 show ?thesis by blast
qed

theorem bearer_stream_key_witness:
  "snd (req_body demo_request) = None \<and>
   req_header demo_request ''Authorization'' = Some ((''Bearer '' @ ''abc'') # []) \<and>
   session_key (postApp demo_server demo demo_request new_exchange) = Some ''abc'' \<and>
   req_header demo_request_raw ''Authorization'' = Some (''abc'' # []) \<and>
   \<not> prefix ''Bearer '' ''abc'' \<and>
   session_key (postApp demo_server demo demo_request_raw new_exchange) = Some ''abc'' \<and>
   req_header demo_request_etag ''Authorization'' = None \<and>
   session_key (postApp demo_server demo demo_request_etag new_exchange) = Some []"
proof -
  have b: "snd (req_body demo_request) = None"
    and b_raw: "snd (req_body demo_request_raw) = None"
    and b_etag: "snd (req_body demo_request_etag) = None"
    by (simp_all add: demo_request_def demo_request_raw_def demo_request_etag_def)
  have h: "req_header demo_request ''Authorization'' = Some ((''Bearer '' @ ''abc'') # [])"
    and h_raw: "req_header demo_request_raw ''Authorization'' = Some (''abc'' # [])"
    and h_etag: "req_header demo_request_etag ''Authorization'' = None"
    by (simp_all add: demo_request_def demo_request_raw_def demo_request_etag_def)
  have n: "\<not> prefix ''Bearer '' ''abc''"
    by simp
  from bearer_stream_key [OF b, where key = "''abc''" and vs = "[]" and s = demo_server
         and c = demo and x = new_exchange]
       bearer_stream_key [OF b_raw, where v = "''abc''" and vs = "[]" and s = demo_server
         and c = demo and x = new_exchange]
       bearer_stream_key [OF b_etag, where s = demo_server and c = demo and x = new_exchange]
       h h_raw h_etag n b
  show ?thesis by simp
qed

section \<open>ICE restart and teardown\<close>

text \<open>
  C6. A \<^verbatim>\<open>PATCH\<close> request whose \<^verbatim>\<open>If-Match\<close> header is not exactly \<^verbatim>\<open>*\<close> is
  answered with status 204 and nothing else but the CORS header: the body stays empty,
  no RPC call is made, and no error is handled.
\<close>

theorem ice_restart_without_if_match:
  assumes "Header_Get (req_header r) ''If-Match'' \<noteq> ''*''"
  shows "patchResource s r new_exchange =
           \<lparr>rw = \<lparr>resp_header = [''Access-Control-Allow-Origin'' \<mapsto> ''*''],
                 resp_status = Some 204,
                 resp_body = []\<rparr>,
            rpc_log = [], err_log = []\<rparr>"
  using assms
  by (simp add: patchResource_def new_exchange_def Header_Set_def WriteHeader_def Let_def)

theorem ice_restart_without_if_match_witness:
  "Header_Get (req_header demo_request_etag) ''If-Match'' \<noteq> ''*'' \<and>
   resp_status (rw (patchResource demo_server demo_request_etag new_exchange)) = Some 204 \<and>
   resp_body (rw (patchResource demo_server demo_request_etag new_exchange)) = [] \<and>
   rpc_log (patchResource demo_server demo_request_etag new_exchange) = [] \<and>
   err_log (patchResource demo_server demo_request_etag new_exchange) = []"
proof -
  have h: "Header_Get (req_header demo_request_etag) ''If-Match'' \<noteq> ''*''"
    by (simp add: demo_request_etag_def demo_request_def Header_Get_def)
  from ice_restart_without_if_match [OF h, of demo_server] h show ?thesis by simp
qed

text \<open>
  C9. When the RPC client answers \<^verbatim>\<open>DeleteWHIPResource\<close>, or the
  \<^verbatim>\<open>ICERestartWHIPResource\<close> of a restart with \<^verbatim>\<open>If-Match: *\<close> and credentials,
  with \<^verbatim>\<open>psrpc.ErrNoResponse\<close>, the response is the one that \<^verbatim>\<open>handleError\<close>
  writes for \<^verbatim>\<open>ErrIngressNotFound\<close>, and that is the only error handled.
\<close>

theorem no_response_is_not_found:
  assumes vars: "resourceID = index_vars (req_vars r) ''resource_id''"
                "streamKey = index_vars (req_vars r) ''stream_key''"
  shows "(rpc_Delete s resourceID resourceID streamKey = Some ErrNoResponse \<longrightarrow>
            deleteResource s r x =
              handleError s (Some ErrIngressNotFound)
                (x\<lparr>rw := Header_Set ''Access-Control-Allow-Origin'' ''*'' (rw x),
                   rpc_log := rpc_log x @ [DeleteWHIPResource resourceID resourceID streamKey]\<rparr>) \<and>
            err_log (deleteResource s r x) = err_log x @ [ErrIngressNotFound]) \<and>
         (Header_Get (req_header r) ''If-Match'' = ''*'' \<and>
          req_body r = (body, None) \<and>
          ScherbanExtractDetails s body = (userFragment, password, None) \<and>
          userFragment \<noteq> [] \<and> password \<noteq> [] \<and>
          rpc_ICERestart s resourceID userFragment password resourceID streamKey
            = (frag, Some ErrNoResponse) \<longrightarrow>
            patchResource s r x =
              handleError s (Some ErrIngressNotFound)
                (x\<lparr>rw := Header_Set ''Access-Control-Allow-Origin'' ''*'' (rw x),
                   rpc_log := rpc_log x @
                     [ICERestartWHIPResource resourceID userFragment password resourceID
                        streamKey]\<rparr>) \<and>
            err_log (patchResource s r x) = err_log x @ [ErrIngressNotFound])"
proof (intro conjI impI)
  assume d: "rpc_Delete s resourceID resourceID streamKey = Some ErrNoResponse"
  with vars show del: "deleteResource s r x =
      handleError s (Some ErrIngressNotFound)
        (x\<lparr>rw := Header_Set ''Access-Control-Allow-Origin'' ''*'' (rw x),
           rpc_log := rpc_log x @ [DeleteWHIPResource resourceID resourceID streamKey]\<rparr>)"
    by (simp add: deleteResource_def Let_def)
  show "err_log (deleteResource s r x) = err_log x @ [ErrIngressNotFound]"
    unfolding del by (simp add: handleError_def split: option.splits)
next
  assume p: "Header_Get (req_header r) ''If-Match'' = ''*'' \<and>
          req_body r = (body, None) \<and>
          ScherbanExtractDetails s body = (userFragment, password, None) \<and>
          userFragment \<noteq> [] \<and> password \<noteq> [] \<and>
          rpc_ICERestart s resourceID userFragment password resourceID streamKey
            = (frag, Some ErrNoResponse)"
  with vars show pat: "patchResource s r x =
      handleError s (Some ErrIngressNotFound)
        (x\<lparr>rw := Header_Set ''Access-Control-Allow-Origin'' ''*'' (rw x),
           rpc_log := rpc_log x @
             [ICERestartWHIPResource resourceID userFragment password resourceID streamKey]\<rparr>)"
    by (simp add: patchResource_def Let_def)
  show "err_log (patchResource s r x) = err_log x @ [ErrIngressNotFound]"
    unfolding pat by (simp add: handleError_def split: option.splits)
qed

theorem no_response_is_not_found_witness:
  "rpc_Delete demo_server ''WH_abc'' ''WH_abc'' ''abc'' = Some ErrNoResponse \<and>
   Header_Get (req_header demo_request) ''If-Match'' = ''*'' \<and>
   rpc_ICERestart demo_server ''WH_abc'' ''ufrag'' ''pwd'' ''WH_abc'' ''abc''
     = ([], Some ErrNoResponse) \<and>
   resp_status (rw (deleteResource demo_server demo_request new_exchange)) = Some 404 \<and>
   resp_body (rw (deleteResource demo_server demo_request new_exchange)) = ''ingress not found'' \<and>
   err_log (deleteResource demo_server demo_request new_exchange) = [ErrIngressNotFound] \<and>
   resp_status (rw (patchResource demo_server demo_request new_exchange)) = Some 404 \<and>
   resp_body (rw (patchResource demo_server demo_request new_exchange)) = ''ingress not found'' \<and>
   err_log (patchResource demo_server demo_request new_exchange) = [ErrIngressNotFound]"
proof -
  have rid: "''WH_abc'' = index_vars (req_vars demo_request) ''resource_id''"
    and key: "''abc'' = index_vars (req_vars demo_request) ''stream_key''"
    by (simp_all add: demo_request_def index_vars_def)
  have d: "rpc_Delete demo_server ''WH_abc'' ''WH_abc'' ''abc'' = Some ErrNoResponse"
    by (simp add: demo_server_def)
  have m: "Header_Get (req_header demo_request) ''If-Match'' = ''*''"
    by (simp add: demo_request_def Header_Get_def)
  have b: "req_body demo_request = (''v=0'', None)"
    by (simp add: demo_request_def)
  have e: "ScherbanExtractDetails demo_server ''v=0'' = (''ufrag'', ''pwd'', None)"
    by (simp add: demo_server_def)
  have i: "rpc_ICERestart demo_server ''WH_abc'' ''ufrag'' ''pwd'' ''WH_abc'' ''abc''
             = ([], Some ErrNoResponse)"
    by (simp add: demo_server_def)
  have nf: "asPsrpc demo_server ErrIngressNotFound = Some (404, ''ingress not found'')"
    by (simp add: demo_server_def)
  from no_response_is_not_found [OF rid key, of demo_server new_exchange "''v=0''"
         "''ufrag''" "''pwd''" "[]"] d m b e i
  have del: "deleteResource demo_server demo_request new_exchange =
      handleError demo_server (Some ErrIngressNotFound)
        (new_exchange\<lparr>rw := Header_Set ''Access-Control-Allow-Origin'' ''*'' (rw new_exchange),
           rpc_log := rpc_log new_exchange @ [DeleteWHIPResource ''WH_abc'' ''WH_abc'' ''abc'']\<rparr>)"
    and pat: "patchResource demo_server demo_request new_exchange =
      handleError demo_server (Some ErrIngressNotFound)
        (new_exchange\<lparr>rw := Header_Set ''Access-Control-Allow-Origin'' ''*'' (rw new_exchange),
           rpc_log := rpc_log new_exchange @
             [ICERestartWHIPResource ''WH_abc'' ''ufrag'' ''pwd'' ''WH_abc'' ''abc'']\<rparr>)"
    by simp_all
  show ?thesis
    unfolding del pat using d m i nf
    by (simp add: handleError_def new_exchange_def Header_Set_def WriteHeader_def Write_def
        bodyAllowedForStatus_def Let_def)
qed

section \<open>Relays\<close>

text \<open>
  C7, as the code has it. For a resource id that the registry does not hold,
  \<^verbatim>\<open>AssociateRelay\<close> returns \<^verbatim>\<open>ErrIngressNotFound\<close> and \<^verbatim>\<open>DissociateRelay\<close>
  returns without an error; neither calls a handler.
\<close>

theorem relay_of_absent_resource:
  assumes "handlers resourceId = None"
  shows "AssociateRelay handlers h_AssociateRelay resourceId kind token wr
           = (Some ErrIngressNotFound, []) \<and>
         DissociateRelay handlers resourceId kind = (None, [])"
  using assms by (simp add: AssociateRelay_def DissociateRelay_def)

theorem relay_of_absent_resource_witness:
  "(Map.empty :: registry) ''WH_abc'' = None \<and>
   AssociateRelay Map.empty (\<lambda>h kind token wr. None) ''WH_abc'' ''audio'' ''token'' 0
     = (Some ErrIngressNotFound, []) \<and>
   DissociateRelay Map.empty ''WH_abc'' ''audio'' = (None, [])"
  using relay_of_absent_resource [of Map.empty "''WH_abc''" "\<lambda>h kind token wr. None"
          "''audio''" "''token''" 0]
  by simp

text \<open>
  C7, as the claim has it, fails for \<^verbatim>\<open>DissociateRelay\<close>, which has no result: on
  the empty registry its caller learns of no error.
\<close>

theorem dissociate_relay_counterexample:
  "(Map.empty :: registry) ''WH_abc'' = None \<and>
   fst (DissociateRelay Map.empty ''WH_abc'' ''audio'') \<noteq> Some ErrIngressNotFound"
  by (simp add: DissociateRelay_def)

end
